theory Spec2Isabelle
  imports Complex_Main
begin

section \<open>Numbers and errors\<close>

text \<open>
  The source's \<^verbatim>\<open>Real\<close> is a Python number. It is modelled as a float with its three
  special values; a finite float is taken as the real number it denotes, so rounding and
  overflow of finite arithmetic are left out. Arithmetic on the special values follows
  IEEE 754, as Python's \<^verbatim>\<open>float\<close> does.
\<close>

datatype Real = NInf | Fin real | PInf | NaN

text \<open>The exceptions raised by the modelled code.\<close>

datatype error =
    ValueError
  | TypeError
  | AttributeError
  | ZeroDivisionError
  | NotImplementedError
  | BeartypeCallHintParamViolation
  | Exception string

text \<open>Python's \<^verbatim>\<open>a < b\<close> and \<^verbatim>\<open>a > b\<close>: every comparison with nan is false.\<close>

fun Real_lt :: "Real \<Rightarrow> Real \<Rightarrow> bool" where
  "Real_lt NaN _ = False"
| "Real_lt _ NaN = False"
| "Real_lt NInf NInf = False"
| "Real_lt NInf _ = True"
| "Real_lt (Fin a) (Fin b) = (a < b)"
| "Real_lt (Fin a) PInf = True"
| "Real_lt (Fin a) NInf = False"
| "Real_lt PInf _ = False"

definition Real_gt :: "Real \<Rightarrow> Real \<Rightarrow> bool" where
  "Real_gt a b = Real_lt b a"

fun Real_neg :: "Real \<Rightarrow> Real" where
  "Real_neg NInf = PInf"
| "Real_neg (Fin a) = Fin (- a)"
| "Real_neg PInf = NInf"
| "Real_neg NaN = NaN"

fun Real_abs :: "Real \<Rightarrow> Real" where
  "Real_abs NInf = PInf"
| "Real_abs (Fin a) = Fin \<bar>a\<bar>"
| "Real_abs PInf = PInf"
| "Real_abs NaN = NaN"

fun Real_add :: "Real \<Rightarrow> Real \<Rightarrow> Real" where
  "Real_add NaN _ = NaN"
| "Real_add _ NaN = NaN"
| "Real_add (Fin a) (Fin b) = Fin (a + b)"
| "Real_add (Fin a) b = b"
| "Real_add PInf NInf = NaN"
| "Real_add NInf PInf = NaN"
| "Real_add a _ = a"

definition Real_sub :: "Real \<Rightarrow> Real \<Rightarrow> Real" where
  "Real_sub a b = Real_add a (Real_neg b)"

text \<open>The sign of a number that is not nan, as \<open>-1\<close>, \<open>0\<close> or \<open>1\<close>.\<close>

fun Real_sgn :: "Real \<Rightarrow> real" where
  "Real_sgn NInf = - 1"
| "Real_sgn (Fin a) = sgn a"
| "Real_sgn PInf = 1"
| "Real_sgn NaN = 0"

definition Real_of_sgn :: "real \<Rightarrow> Real" where
  "Real_of_sgn s = (if s < 0 then NInf else if 0 < s then PInf else NaN)"

fun Real_mul :: "Real \<Rightarrow> Real \<Rightarrow> Real" where
  "Real_mul NaN _ = NaN"
| "Real_mul _ NaN = NaN"
| "Real_mul (Fin a) (Fin b) = Fin (a * b)"
| "Real_mul a b = Real_of_sgn (Real_sgn a * Real_sgn b)"

text \<open>
  The operations above are the same on Python's built-in floats and on numpy's floating
  scalars. Division is not: a built-in float raises on a zero divisor, a numpy scalar
  returns an infinity or nan. It is modelled here for built-in floats alone.

  The quotient of two floats by a divisor that is not zero: a finite number over an
  infinity is zero, an infinity over an infinity is nan.
\<close>

fun Real_quot :: "Real \<Rightarrow> Real \<Rightarrow> Real" where
  "Real_quot NaN _ = NaN"
| "Real_quot _ NaN = NaN"
| "Real_quot (Fin a) (Fin b) = Fin (a / b)"
| "Real_quot (Fin a) _ = Fin 0"
| "Real_quot a (Fin b) = Real_of_sgn (Real_sgn a * sgn b)"
| "Real_quot _ _ = NaN"

text \<open>Python's \<^verbatim>\<open>a / b\<close> on two built-in floats: a zero divisor raises.\<close>

definition Real_truediv :: "Real \<Rightarrow> Real \<Rightarrow> error + Real" where
  "Real_truediv a b = (if b = Fin 0 then Inl ZeroDivisionError else Inr (Real_quot a b))"

text \<open>
  Python's two-argument \<^verbatim>\<open>min\<close> and \<^verbatim>\<open>max\<close>: the first argument is kept unless the
  second one is strictly smaller (strictly greater).
\<close>

definition py_min :: "Real \<Rightarrow> Real \<Rightarrow> Real" where
  "py_min a b = (if Real_lt b a then b else a)"

definition py_max :: "Real \<Rightarrow> Real \<Rightarrow> Real" where
  "py_max a b = (if Real_gt b a then b else a)"

text \<open>numpy's \<^verbatim>\<open>isneginf\<close> and \<^verbatim>\<open>isinf\<close>.\<close>

definition isneginf :: "Real \<Rightarrow> bool" where
  "isneginf a = (a = NInf)"

definition isinf :: "Real \<Rightarrow> bool" where
  "isinf a = (a = NInf \<or> a = PInf)"

section \<open>ParamUV\<close>

text \<open>
  A \<^verbatim>\<open>ParamUV\<close> stores the two numbers it is given as they are and its operators apply the
  numbers' own operators. The type \<^verbatim>\<open>Real\<close> of the source is declared in the module
  \<^verbatim>\<open>typing\<close>, whose source is not part of this development, and covers several classes
  of numbers (built-in ints and floats, numpy scalars) whose operators differ in when
  they raise. So the representation \<open>'n\<close> of the numbers and their four operators are
  parameters; an operator of the numbers returns a number or raises.
\<close>

record 'n arithmetic =
  num_add :: "'n \<Rightarrow> 'n \<Rightarrow> error + 'n"
  num_sub :: "'n \<Rightarrow> 'n \<Rightarrow> error + 'n"
  num_mul :: "'n \<Rightarrow> 'n \<Rightarrow> error + 'n"
  num_truediv :: "'n \<Rightarrow> 'n \<Rightarrow> error + 'n"

text \<open>
  The operators of two built-in floats: the sum, the difference and the product never
  raise, the quotient raises on a zero divisor.
\<close>

definition float_arithmetic :: "Real arithmetic" where
  "float_arithmetic =
     \<lparr>num_add = (\<lambda>a b. Inr (Real_add a b)),
      num_sub = (\<lambda>a b. Inr (Real_sub a b)),
      num_mul = (\<lambda>a b. Inr (Real_mul a b)),
      num_truediv = Real_truediv\<rparr>"

record 'n ParamUV =
  param_u :: 'n
  param_v :: 'n

definition ParamUV_init :: "'n \<Rightarrow> 'n \<Rightarrow> 'n ParamUV" where
  "ParamUV_init u v = \<lparr>param_u = u, param_v = v\<rparr>"

text \<open>
  In each operator the operation on the u components is evaluated first, then the one
  on the v components, then the new \<^verbatim>\<open>ParamUV\<close> is made; either operation may raise.
\<close>

definition ParamUV_add :: "'n arithmetic \<Rightarrow> 'n ParamUV \<Rightarrow> 'n ParamUV \<Rightarrow> error + 'n ParamUV" where
  "ParamUV_add ops self other =
     (case num_add ops (param_u self) (param_u other) of
        Inl e \<Rightarrow> Inl e
      | Inr ru \<Rightarrow>
          (case num_add ops (param_v self) (param_v other) of
             Inl e \<Rightarrow> Inl e
           | Inr rv \<Rightarrow> Inr (ParamUV_init ru rv)))"

definition ParamUV_sub :: "'n arithmetic \<Rightarrow> 'n ParamUV \<Rightarrow> 'n ParamUV \<Rightarrow> error + 'n ParamUV" where
  "ParamUV_sub ops self other =
     (case num_sub ops (param_u self) (param_u other) of
        Inl e \<Rightarrow> Inl e
      | Inr ru \<Rightarrow>
          (case num_sub ops (param_v self) (param_v other) of
             Inl e \<Rightarrow> Inl e
           | Inr rv \<Rightarrow> Inr (ParamUV_init ru rv)))"

definition ParamUV_mul :: "'n arithmetic \<Rightarrow> 'n ParamUV \<Rightarrow> 'n ParamUV \<Rightarrow> error + 'n ParamUV" where
  "ParamUV_mul ops self other =
     (case num_mul ops (param_u self) (param_u other) of
        Inl e \<Rightarrow> Inl e
      | Inr ru \<Rightarrow>
          (case num_mul ops (param_v self) (param_v other) of
             Inl e \<Rightarrow> Inl e
           | Inr rv \<Rightarrow> Inr (ParamUV_init ru rv)))"

definition ParamUV_truediv ::
  "'n arithmetic \<Rightarrow> 'n ParamUV \<Rightarrow> 'n ParamUV \<Rightarrow> error + 'n ParamUV" where
  "ParamUV_truediv ops self other =
     (case num_truediv ops (param_u self) (param_u other) of
        Inl e \<Rightarrow> Inl e
      | Inr ru \<Rightarrow>
          (case num_truediv ops (param_v self) (param_v other) of
             Inl e \<Rightarrow> Inl e
           | Inr rv \<Rightarrow> Inr (ParamUV_init ru rv)))"

section \<open>Interval\<close>

text \<open>
  The class \<^verbatim>\<open>Accuracy\<close> is imported from the module \<^verbatim>\<open>misc.accuracy\<close>, whose source is
  not part of this development. Its three members that \<^verbatim>\<open>Interval\<close> uses are taken as
  parameters, with the signatures the spec gives them.
\<close>

record Accuracy =
  equal_doubles :: "Real \<Rightarrow> Real \<Rightarrow> bool"
  compare_with_tolerance :: "Real \<Rightarrow> Real \<Rightarrow> Real \<Rightarrow> Real \<Rightarrow> bool"
  length_accuracy :: Real

text \<open>
  Modelled from the spec: a sample instance of \<^verbatim>\<open>Accuracy\<close> for the examples, with a
  zero epsilon. Two numbers are equal doubles when they are the same number, and a value
  compares as below a target when it is less than the target by more than the low
  tolerance.
\<close>

definition sample_accuracy :: Accuracy where
  "sample_accuracy =
     \<lparr>equal_doubles = (\<lambda>a b. a = b \<and> a \<noteq> NaN),
      compare_with_tolerance = (\<lambda>value target low high. Real_lt value (Real_sub target low)),
      length_accuracy = Fin (1 / 10 ^ 8)\<rparr>"

text \<open>
  The instance attributes \<^verbatim>\<open>_start\<close>, \<^verbatim>\<open>_end\<close> and \<^verbatim>\<open>not_empty\<close>. An interval is
  empty once \<^verbatim>\<open>not_empty\<close> has been set to false; the constructor sets it to true.
\<close>

record Interval =
  Interval_start :: Real
  Interval_end :: Real
  not_empty :: bool

definition Interval_init :: "Real \<Rightarrow> Real \<Rightarrow> error + Interval" where
  "Interval_init start end' =
     (if Real_lt end' start then Inl ValueError
      else Inr \<lparr>Interval_start = start, Interval_end = end', not_empty = True\<rparr>)"

text \<open>
  Reading an attribute of an interval by name. The names are the instance attributes,
  the two properties and the methods of the class; any other name raises. The
  attributes every Python object inherits from \<^verbatim>\<open>object\<close> are left out, no modelled
  code reads them.
\<close>

datatype attr = Attr_Real Real | Attr_bool bool | Attr_method

definition Interval_methods :: "string list" where
  "Interval_methods =
     [''__init__'', ''__eq__'', ''is_open'', ''is_closed'', ''is_empty'', ''get_span'',
      ''get_relative_val'', ''is_negative'', ''unite'', ''intersect'', ''contains'',
      ''inflate'', ''__repr__'']"

definition Interval_getattr :: "Interval \<Rightarrow> string \<Rightarrow> error + attr" where
  "Interval_getattr self name =
     (if name = ''_start'' \<or> name = ''start'' then Inr (Attr_Real (Interval_start self))
      else if name = ''_end'' \<or> name = ''end'' then Inr (Attr_Real (Interval_end self))
      else if name = ''not_empty'' then Inr (Attr_bool (not_empty self))
      else if name \<in> set Interval_methods then Inr Attr_method
      else Inl AttributeError)"

text \<open>
  An attribute value used as an operand of \<^verbatim>\<open>min\<close> beside a number: a bool is the
  integer 0 or 1, a bound method cannot be compared.
\<close>

fun attr_number :: "attr \<Rightarrow> error + Real" where
  "attr_number (Attr_Real x) = Inr x"
| "attr_number (Attr_bool b) = Inr (Fin (if b then 1 else 0))"
| "attr_number Attr_method = Inl TypeError"

definition is_open :: "Interval \<Rightarrow> bool" where
  "is_open self = (isneginf (Interval_start self) \<and> isinf (Interval_end self))"

definition is_closed :: "Interval \<Rightarrow> bool" where
  "is_closed self = (Real_gt (Interval_start self) NInf \<and> Real_lt (Interval_end self) PInf)"

definition is_empty :: "Interval \<Rightarrow> bool" where
  "is_empty self = (\<not> not_empty self)"

definition get_span :: "Interval \<Rightarrow> error + Real" where
  "get_span self =
     (if \<not> is_closed self then Inl ValueError
      else Inr (Real_sub (Interval_end self) (Interval_start self)))"

definition get_relative_val :: "Interval \<Rightarrow> Real \<Rightarrow> error + Real" where
  "get_relative_val self t =
     (case get_span self of
        Inl e \<Rightarrow> Inl e
      | Inr s \<Rightarrow> Inr (Real_add (Interval_start self) (Real_mul t s)))"

definition is_negative :: "Accuracy \<Rightarrow> Interval \<Rightarrow> Real \<Rightarrow> error + bool" where
  "is_negative A self tolerance =
     (case get_span self of
        Inl e \<Rightarrow> Inl e
      | Inr s \<Rightarrow> Inr (compare_with_tolerance A s (Fin 0) tolerance tolerance))"

definition unite :: "Interval \<Rightarrow> Interval \<Rightarrow> error + Interval" where
  "unite first second =
     (if is_empty first then Inr second
      else if is_empty second then Inr first
      else Interval_init (py_min (Interval_start first) (Interval_start second))
                         (py_max (Interval_end first) (Interval_end second)))"

text \<open>
  \<^verbatim>\<open>intersect\<close> returns \<^verbatim>\<open>None\<close> where the result is "supposed to be empty". The
  arguments of the constructor call are evaluated from left to right, and the last
  operand read is the attribute \<^verbatim>\<open>send\<close> of the second interval.
\<close>

definition intersect :: "Accuracy \<Rightarrow> Interval \<Rightarrow> Interval \<Rightarrow> Real \<Rightarrow> error + Interval option" where
  "intersect A first second tolerance =
     (if is_empty first \<or> is_empty second then Inr None
      else
        let lo = py_max (Interval_start first) (Interval_start second) in
        (case Interval_getattr second ''send'' of
           Inl e \<Rightarrow> Inl e
         | Inr a \<Rightarrow>
             (case attr_number a of
                Inl e \<Rightarrow> Inl e
              | Inr send \<Rightarrow>
                  (case Interval_init lo (py_min (Interval_end first) send) of
                     Inl e \<Rightarrow> Inl e
                   | Inr intersection \<Rightarrow>
                       (case is_negative A intersection tolerance of
                          Inl e \<Rightarrow> Inl e
                        | Inr neg \<Rightarrow>
                            if \<not> neg then Inr (Some intersection) else Inr None)))))"

text \<open>
  The class body defines \<^verbatim>\<open>contains\<close> twice: first with the parameters
  \<^verbatim>\<open>(self, t, accuracy)\<close>, then with \<^verbatim>\<open>(self, t)\<close>. A class body is run from top to
  bottom and each \<^verbatim>\<open>def\<close> binds its name in the class namespace, so a later binding
  of a name replaces an earlier one.
\<close>

datatype contains_def = contains_t_accuracy | contains_t

definition Interval_class_body :: "(string \<times> contains_def) list" where
  "Interval_class_body = [(''contains'', contains_t_accuracy), (''contains'', contains_t)]"

definition class_namespace :: "(string \<times> 'f) list \<Rightarrow> string \<Rightarrow> 'f option" where
  "class_namespace body = foldl (\<lambda>ns (name, f). ns(name \<mapsto> f)) Map.empty body"

text \<open>The body of the first definition, \<^verbatim>\<open>contains(self, t, accuracy)\<close>.\<close>

definition contains_t_accuracy_body :: "Interval \<Rightarrow> Real \<Rightarrow> Real \<Rightarrow> bool" where
  "contains_t_accuracy_body self t accuracy =
     (if is_empty self then False
      else
        let negative_abs_accuracy = Real_neg (Real_abs accuracy) in
        if Real_gt (Interval_start self) (Interval_end self) then
          (if Real_lt (Real_sub (Interval_start self) t) negative_abs_accuracy then False
           else if Real_lt (Real_sub t (Interval_end self)) negative_abs_accuracy then False
           else True)
        else
          (if Real_lt (Real_sub t (Interval_start self)) negative_abs_accuracy then False
           else if Real_lt (Real_sub (Interval_end self) t) negative_abs_accuracy then False
           else True))"

text \<open>
  The call \<^verbatim>\<open>self.contains(*args)\<close>: the name is looked up in the class namespace and
  the function found is called; a call whose number of arguments is not that of the
  function's parameters raises \<^verbatim>\<open>TypeError\<close>. The body of the second definition,
  \<^verbatim>\<open>contains(self, t)\<close>, is itself the call
  \<^verbatim>\<open>self.contains(t, Accuracy.length_accuracy)\<close>.
\<close>

function contains :: "Accuracy \<Rightarrow> Interval \<Rightarrow> Real list \<Rightarrow> error + bool" where
  "contains A self args =
     (case class_namespace Interval_class_body ''contains'' of
        None \<Rightarrow> Inl AttributeError
      | Some contains_t_accuracy \<Rightarrow>
          (case args of
             [t, accuracy] \<Rightarrow> Inr (contains_t_accuracy_body self t accuracy)
           | _ \<Rightarrow> Inl TypeError)
      | Some contains_t \<Rightarrow>
          (case args of
             [t] \<Rightarrow> contains A self [t, length_accuracy A]
           | _ \<Rightarrow> Inl TypeError))"
  by pat_completeness auto
termination
  by (relation "measure (\<lambda>(A, self, args). 2 - length args)") auto

declare contains.simps [simp del]

definition inflate :: "Interval \<Rightarrow> Real \<Rightarrow> error + Interval" where
  "inflate self delta =
     (if is_empty self then
        Inl (Exception (''Invalid Method On Empty Object Exception'' @ ''Interval''))
      else Interval_init (Real_sub (Interval_start self) delta)
                         (Real_add (Interval_end self) delta))"

section \<open>Plane\<close>

text \<open>
  Modelled from the spec: the point and vector classes of the math library, whose source
  is not part of this development. A point and a vector have three
  coordinates; a unit vector is a normalised direction, so its coordinates are finite
  real numbers.
\<close>

datatype Point3D = Point3D Real Real Real

datatype Vector3D = Vector3D Real Real Real

datatype UnitVector3D = UnitVector3D real real real

text \<open>
  Modelled from the spec: a unit vector read as a vector (the class \<^verbatim>\<open>UnitVector3D\<close> is
  a kind of \<^verbatim>\<open>Vector3D\<close>).
\<close>

fun Vector3D_of :: "UnitVector3D \<Rightarrow> Vector3D" where
  "Vector3D_of (UnitVector3D a b c) = Vector3D (Fin a) (Fin b) (Fin c)"

text \<open>
  Modelled from the spec: the cross product, with standard Euclidean semantics.
\<close>

fun cross :: "UnitVector3D \<Rightarrow> UnitVector3D \<Rightarrow> UnitVector3D" where
  "cross (UnitVector3D a1 a2 a3) (UnitVector3D b1 b2 b3) =
     UnitVector3D (a2 * b3 - a3 * b2) (a3 * b1 - a1 * b3) (a1 * b2 - a2 * b1)"

text \<open>
  Modelled from the spec: the product \<^verbatim>\<open>s * d\<close> of a number and a direction, coordinate
  by coordinate.
\<close>

fun Vector3D_rmul :: "Real \<Rightarrow> Vector3D \<Rightarrow> Vector3D" where
  "Vector3D_rmul s (Vector3D a b c) = Vector3D (Real_mul s a) (Real_mul s b) (Real_mul s c)"

text \<open>
  Modelled from the spec: the sum \<^verbatim>\<open>p + w\<close> of a point and a vector, coordinate by
  coordinate.
\<close>

fun Point3D_add :: "Point3D \<Rightarrow> Vector3D \<Rightarrow> Point3D" where
  "Point3D_add (Point3D x y z) (Vector3D a b c) =
     Point3D (Real_add x a) (Real_add y b) (Real_add z c)"

text \<open>
  Modelled from the spec: the default directions of a plane, \<^verbatim>\<open>reference = +X\<close> and
  \<^verbatim>\<open>axis = +Z\<close>.
\<close>

definition UNITVECTOR3D_X :: UnitVector3D where
  "UNITVECTOR3D_X = UnitVector3D 1 0 0"

definition UNITVECTOR3D_Z :: UnitVector3D where
  "UNITVECTOR3D_Z = UnitVector3D 0 0 1"

text \<open>
  The other members of the math library that the plane calls are taken as parameters:
  the constructors \<^verbatim>\<open>Point3D(...)\<close> and \<^verbatim>\<open>UnitVector3D(...)\<close> applied to a sequence
  of numbers, the test \<^verbatim>\<open>is_perpendicular_to\<close>, and the \<^verbatim>\<open>==\<close> of points and of unit
  vectors.
\<close>

record Math =
  Point3D_new :: "Real list \<Rightarrow> error + Point3D"
  UnitVector3D_new :: "Real list \<Rightarrow> error + UnitVector3D"
  is_perpendicular_to :: "UnitVector3D \<Rightarrow> UnitVector3D \<Rightarrow> bool"
  Point3D_eq :: "Point3D \<Rightarrow> Point3D \<Rightarrow> bool"
  UnitVector3D_eq :: "UnitVector3D \<Rightarrow> UnitVector3D \<Rightarrow> bool"

text \<open>
  Modelled from the spec: an instance of these members with exact comparisons. A point is
  made from three coordinates, a unit vector by normalising three finite coordinates
  that are not all zero, two directions are perpendicular when their dot product is zero,
  and equality is coordinate by coordinate.
\<close>

definition exact_math :: Math where
  "exact_math =
     \<lparr>Point3D_new = (\<lambda>xs. case xs of [x, y, z] \<Rightarrow> Inr (Point3D x y z) | _ \<Rightarrow> Inl ValueError),
      UnitVector3D_new =
        (\<lambda>xs. case xs of
           [Fin a, Fin b, Fin c] \<Rightarrow>
             (let n = sqrt (a * a + b * b + c * c)
              in if 0 < n then Inr (UnitVector3D (a / n) (b / n) (c / n)) else Inl ValueError)
         | _ \<Rightarrow> Inl ValueError),
      is_perpendicular_to =
        (\<lambda>d e. case (d, e) of
           (UnitVector3D a1 a2 a3, UnitVector3D b1 b2 b3) \<Rightarrow> a1 * b1 + a2 * b2 + a3 * b3 = 0),
      Point3D_eq = (\<lambda>p q. p = q),
      UnitVector3D_eq = (\<lambda>d e. d = e)\<rparr>"

text \<open>
  An argument of the plane's constructor is either an instance of the expected class or
  a sequence of numbers (a list, a numpy array, or the coordinates of a vector of another
  class), which the constructor converts.
\<close>

datatype 'a array_like = Instance 'a | Sequence "Real list"

record Plane =
  Plane_origin :: Point3D
  Plane_reference :: UnitVector3D
  Plane_axis :: UnitVector3D

definition Plane_init ::
  "Math \<Rightarrow> Point3D array_like \<Rightarrow> UnitVector3D array_like \<Rightarrow> UnitVector3D array_like
     \<Rightarrow> error + Plane" where
  "Plane_init M origin reference axis =
     (case (case origin of Instance p \<Rightarrow> Inr p | Sequence xs \<Rightarrow> Point3D_new M xs) of
        Inl e \<Rightarrow> Inl e
      | Inr orig \<Rightarrow>
     (case (case reference of Instance d \<Rightarrow> Inr d | Sequence xs \<Rightarrow> UnitVector3D_new M xs) of
        Inl e \<Rightarrow> Inl e
      | Inr ref \<Rightarrow>
     (case (case axis of Instance d \<Rightarrow> Inr d | Sequence xs \<Rightarrow> UnitVector3D_new M xs) of
        Inl e \<Rightarrow> Inl e
      | Inr ax \<Rightarrow>
          if \<not> is_perpendicular_to M ref ax then Inl ValueError
          else Inr \<lparr>Plane_origin = orig, Plane_reference = ref, Plane_axis = ax\<rparr>)))"

definition origin :: "Plane \<Rightarrow> Point3D" where
  "origin self = Plane_origin self"

definition dir_x :: "Plane \<Rightarrow> UnitVector3D" where
  "dir_x self = Plane_reference self"

definition dir_z :: "Plane \<Rightarrow> UnitVector3D" where
  "dir_z self = Plane_axis self"

definition dir_y :: "Plane \<Rightarrow> UnitVector3D" where
  "dir_y self = cross (dir_z self) (dir_x self)"

definition contains_param :: "Plane \<Rightarrow> Real ParamUV \<Rightarrow> error + bool" where
  "contains_param self param_uv = Inl NotImplementedError"

definition contains_point :: "Plane \<Rightarrow> Point3D \<Rightarrow> error + bool" where
  "contains_point self point = Inl NotImplementedError"

subsection \<open>PlaneEvaluation\<close>

record PlaneEvaluation =
  plane :: Plane
  parameter :: "Real ParamUV"

definition PlaneEvaluation_init :: "Plane \<Rightarrow> Real ParamUV \<Rightarrow> PlaneEvaluation" where
  "PlaneEvaluation_init pl par = \<lparr>plane = pl, parameter = par\<rparr>"

definition evaluate :: "Plane \<Rightarrow> Real ParamUV \<Rightarrow> PlaneEvaluation" where
  "evaluate self par = PlaneEvaluation_init self par"

definition position :: "PlaneEvaluation \<Rightarrow> Point3D" where
  "position self =
     Point3D_add
       (Point3D_add (origin (plane self))
          (Vector3D_rmul (param_u (parameter self)) (Vector3D_of (dir_x (plane self)))))
       (Vector3D_rmul (param_v (parameter self)) (Vector3D_of (dir_y (plane self))))"

definition normal :: "PlaneEvaluation \<Rightarrow> UnitVector3D" where
  "normal self = dir_z (plane self)"

definition u_derivative :: "PlaneEvaluation \<Rightarrow> UnitVector3D" where
  "u_derivative self = dir_z (plane self)"

definition v_derivative :: "PlaneEvaluation \<Rightarrow> UnitVector3D" where
  "v_derivative self = dir_y (plane self)"

definition uu_derivative :: "PlaneEvaluation \<Rightarrow> Vector3D" where
  "uu_derivative self = Vector3D (Fin 0) (Fin 0) (Fin 0)"

definition uv_derivative :: "PlaneEvaluation \<Rightarrow> Vector3D" where
  "uv_derivative self = Vector3D (Fin 0) (Fin 0) (Fin 0)"

definition vv_derivative :: "PlaneEvaluation \<Rightarrow> Vector3D" where
  "vv_derivative self = Vector3D (Fin 0) (Fin 0) (Fin 0)"

section \<open>Equality against a value of any type\<close>

text \<open>
  The argument of \<^verbatim>\<open>__eq__\<close> is any Python object. \<^verbatim>\<open>Interval.__eq__\<close> may return the
  constant \<^verbatim>\<open>NotImplemented\<close> in place of a bool.
\<close>

datatype py_object =
    Obj_Plane Plane
  | Obj_Interval Interval
  | Obj_ParamUV "Real ParamUV"
  | Obj_Real Real
  | Obj_str string
  | Obj_None

datatype eq_result = Bool bool | NotImplemented

fun isinstance_Interval :: "py_object \<Rightarrow> bool" where
  "isinstance_Interval (Obj_Interval _) = True"
| "isinstance_Interval _ = False"

fun isinstance_Plane :: "py_object \<Rightarrow> bool" where
  "isinstance_Plane (Obj_Plane _) = True"
| "isinstance_Plane _ = False"

definition Interval_eq :: "Accuracy \<Rightarrow> Interval \<Rightarrow> py_object \<Rightarrow> eq_result" where
  "Interval_eq A self other =
     (case other of
        Obj_Interval other' \<Rightarrow>
          if is_empty self \<or> is_empty other' then Bool (is_empty self \<and> is_empty other')
          else Bool (equal_doubles A (Interval_start self) (Interval_start other')
                     \<and> equal_doubles A (Interval_end self) (Interval_end other'))
      | _ \<Rightarrow> NotImplemented)"

text \<open>
  \<^verbatim>\<open>Plane.__eq__\<close> is decorated with beartype's type check of its arguments, which raises
  before the body runs when \<^verbatim>\<open>other\<close> is not a \<^verbatim>\<open>Plane\<close>.
\<close>

definition Plane_eq :: "Math \<Rightarrow> Plane \<Rightarrow> py_object \<Rightarrow> error + bool" where
  "Plane_eq M self other =
     (case other of
        Obj_Plane other' \<Rightarrow>
          Inr (Point3D_eq M (Plane_origin self) (Plane_origin other')
               \<and> UnitVector3D_eq M (Plane_reference self) (Plane_reference other')
               \<and> UnitVector3D_eq M (Plane_axis self) (Plane_axis other'))
      | _ \<Rightarrow> Inl BeartypeCallHintParamViolation)"

section \<open>Properties of ParamUV\<close>

text \<open>
  Claim C3 says that each of the four operators combines the two parameters pairwise and
  never fails, division included, also for a divisor with a zero component. For
  built-in floats the division by such a divisor raises:
  \<^verbatim>\<open>ParamUV(1.0, 2.0) / ParamUV(0.0, 2.0)\<close> ends in \<^verbatim>\<open>ZeroDivisionError\<close>.
\<close>

theorem ParamUV_truediv_zero_counterexample:
  "ParamUV_truediv float_arithmetic (ParamUV_init (Fin 1) (Fin 2)) (ParamUV_init (Fin 0) (Fin 2))
     = Inl ZeroDivisionError"
  by (simp add: ParamUV_truediv_def ParamUV_init_def float_arithmetic_def Real_truediv_def)

lemma ParamUV_float_arithmetic:
  "ParamUV_add float_arithmetic p q =
     Inr (ParamUV_init (Real_add (param_u p) (param_u q)) (Real_add (param_v p) (param_v q)))"
  "ParamUV_sub float_arithmetic p q =
     Inr (ParamUV_init (Real_sub (param_u p) (param_u q)) (Real_sub (param_v p) (param_v q)))"
  "ParamUV_mul float_arithmetic p q =
     Inr (ParamUV_init (Real_mul (param_u p) (param_u q)) (Real_mul (param_v p) (param_v q)))"
  "ParamUV_truediv float_arithmetic p q =
     (if param_u q = Fin 0 \<or> param_v q = Fin 0 then Inl ZeroDivisionError
      else Inr (ParamUV_init (Real_quot (param_u p) (param_u q))
                             (Real_quot (param_v p) (param_v q))))"
  by (simp_all add: ParamUV_add_def ParamUV_sub_def ParamUV_mul_def ParamUV_truediv_def
        float_arithmetic_def Real_truediv_def)

text \<open>
  Claim C3, as amended. For every pair of \<^verbatim>\<open>ParamUV\<close> values, whatever the class of their
  numbers, each of the four operators applies the numbers' operator to the two u
  components and to the two v components: when both operations return, the result is
  the new \<^verbatim>\<open>ParamUV\<close> of the two results; when the operation on the u components raises,
  or it returns and the operation on the v components raises, the operator raises the
  same error. So an operator fails exactly when an operation on the components does.
  For built-in floats the sum, the difference and the product never fail; the quotient
  is the \<^verbatim>\<open>ParamUV\<close> of the pairwise quotients when both components of the divisor are
  different from zero, and the division raises \<^verbatim>\<open>ZeroDivisionError\<close> when a component of
  the divisor is zero.
\<close>

theorem ParamUV_operators:
  "(num_add ops (param_u a) (param_u b) = Inr x
      \<and> num_add ops (param_v a) (param_v b) = Inr y
      \<longrightarrow> ParamUV_add ops a b = Inr (ParamUV_init x y))
   \<and> (num_add ops (param_u a) (param_u b) = Inl e \<longrightarrow> ParamUV_add ops a b = Inl e)
   \<and> (num_add ops (param_u a) (param_u b) = Inr x
      \<and> num_add ops (param_v a) (param_v b) = Inl e
      \<longrightarrow> ParamUV_add ops a b = Inl e)
   \<and> (num_sub ops (param_u a) (param_u b) = Inr x
      \<and> num_sub ops (param_v a) (param_v b) = Inr y
      \<longrightarrow> ParamUV_sub ops a b = Inr (ParamUV_init x y))
   \<and> (num_sub ops (param_u a) (param_u b) = Inl e \<longrightarrow> ParamUV_sub ops a b = Inl e)
   \<and> (num_sub ops (param_u a) (param_u b) = Inr x
      \<and> num_sub ops (param_v a) (param_v b) = Inl e
      \<longrightarrow> ParamUV_sub ops a b = Inl e)
   \<and> (num_mul ops (param_u a) (param_u b) = Inr x
      \<and> num_mul ops (param_v a) (param_v b) = Inr y
      \<longrightarrow> ParamUV_mul ops a b = Inr (ParamUV_init x y))
   \<and> (num_mul ops (param_u a) (param_u b) = Inl e \<longrightarrow> ParamUV_mul ops a b = Inl e)
   \<and> (num_mul ops (param_u a) (param_u b) = Inr x
      \<and> num_mul ops (param_v a) (param_v b) = Inl e
      \<longrightarrow> ParamUV_mul ops a b = Inl e)
   \<and> (num_truediv ops (param_u a) (param_u b) = Inr x
      \<and> num_truediv ops (param_v a) (param_v b) = Inr y
      \<longrightarrow> ParamUV_truediv ops a b = Inr (ParamUV_init x y))
   \<and> (num_truediv ops (param_u a) (param_u b) = Inl e \<longrightarrow> ParamUV_truediv ops a b = Inl e)
   \<and> (num_truediv ops (param_u a) (param_u b) = Inr x
      \<and> num_truediv ops (param_v a) (param_v b) = Inl e
      \<longrightarrow> ParamUV_truediv ops a b = Inl e)
   \<and> ParamUV_add float_arithmetic p q =
       Inr (ParamUV_init (Real_add (param_u p) (param_u q)) (Real_add (param_v p) (param_v q)))
   \<and> ParamUV_sub float_arithmetic p q =
       Inr (ParamUV_init (Real_sub (param_u p) (param_u q)) (Real_sub (param_v p) (param_v q)))
   \<and> ParamUV_mul float_arithmetic p q =
       Inr (ParamUV_init (Real_mul (param_u p) (param_u q)) (Real_mul (param_v p) (param_v q)))
   \<and> (param_u q \<noteq> Fin 0 \<and> param_v q \<noteq> Fin 0 \<longrightarrow>
        ParamUV_truediv float_arithmetic p q =
          Inr (ParamUV_init (Real_quot (param_u p) (param_u q))
                            (Real_quot (param_v p) (param_v q))))
   \<and> (param_u q = Fin 0 \<or> param_v q = Fin 0 \<longrightarrow>
        ParamUV_truediv float_arithmetic p q = Inl ZeroDivisionError)"
proof -
  have general:
    "(num_add ops (param_u a) (param_u b) = Inr x
      \<and> num_add ops (param_v a) (param_v b) = Inr y
      \<longrightarrow> ParamUV_add ops a b = Inr (ParamUV_init x y))
   \<and> (num_add ops (param_u a) (param_u b) = Inl e \<longrightarrow> ParamUV_add ops a b = Inl e)
   \<and> (num_add ops (param_u a) (param_u b) = Inr x
      \<and> num_add ops (param_v a) (param_v b) = Inl e
      \<longrightarrow> ParamUV_add ops a b = Inl e)
   \<and> (num_sub ops (param_u a) (param_u b) = Inr x
      \<and> num_sub ops (param_v a) (param_v b) = Inr y
      \<longrightarrow> ParamUV_sub ops a b = Inr (ParamUV_init x y))
   \<and> (num_sub ops (param_u a) (param_u b) = Inl e \<longrightarrow> ParamUV_sub ops a b = Inl e)
   \<and> (num_sub ops (param_u a) (param_u b) = Inr x
      \<and> num_sub ops (param_v a) (param_v b) = Inl e
      \<longrightarrow> ParamUV_sub ops a b = Inl e)
   \<and> (num_mul ops (param_u a) (param_u b) = Inr x
      \<and> num_mul ops (param_v a) (param_v b) = Inr y
      \<longrightarrow> ParamUV_mul ops a b = Inr (ParamUV_init x y))
   \<and> (num_mul ops (param_u a) (param_u b) = Inl e \<longrightarrow> ParamUV_mul ops a b = Inl e)
   \<and> (num_mul ops (param_u a) (param_u b) = Inr x
      \<and> num_mul ops (param_v a) (param_v b) = Inl e
      \<longrightarrow> ParamUV_mul ops a b = Inl e)
   \<and> (num_truediv ops (param_u a) (param_u b) = Inr x
      \<and> num_truediv ops (param_v a) (param_v b) = Inr y
      \<longrightarrow> ParamUV_truediv ops a b = Inr (ParamUV_init x y))
   \<and> (num_truediv ops (param_u a) (param_u b) = Inl e \<longrightarrow> ParamUV_truediv ops a b = Inl e)
   \<and> (num_truediv ops (param_u a) (param_u b) = Inr x
      \<and> num_truediv ops (param_v a) (param_v b) = Inl e
      \<longrightarrow> ParamUV_truediv ops a b = Inl e)"
    by (simp add: ParamUV_add_def ParamUV_sub_def ParamUV_mul_def ParamUV_truediv_def)
  show ?thesis
    by (intro conjI impI) (use general in \<open>simp_all add: ParamUV_float_arithmetic\<close>)
qed

text \<open>
  The amended claim for built-in floats, at the spec's examples
  \<^verbatim>\<open>ParamUV(1,2) + ParamUV(3,4)\<close> and \<^verbatim>\<open>ParamUV(2,4) / ParamUV(2,2)\<close>, and at divisors
  whose v component or u component is zero.
\<close>

theorem ParamUV_operators_witness:
  "ParamUV_add float_arithmetic (ParamUV_init (Fin 1) (Fin 2)) (ParamUV_init (Fin 3) (Fin 4))
     = Inr (ParamUV_init (Fin 4) (Fin 6))
   \<and> ParamUV_truediv float_arithmetic (ParamUV_init (Fin 2) (Fin 4)) (ParamUV_init (Fin 2) (Fin 2))
     = Inr (ParamUV_init (Fin 1) (Fin 2))
   \<and> ParamUV_truediv float_arithmetic (ParamUV_init (Fin 2) (Fin 4)) (ParamUV_init (Fin 2) (Fin 0))
     = Inl ZeroDivisionError
   \<and> ParamUV_truediv float_arithmetic (ParamUV_init (Fin 2) (Fin 4)) (ParamUV_init (Fin 0) (Fin 2))
     = Inl ZeroDivisionError"
proof -
  have u_quotient: "num_truediv float_arithmetic (Fin 2) (Fin 2) = Inr (Fin 1)"
    and v_quotient: "num_truediv float_arithmetic (Fin 4) (Fin 2) = Inr (Fin 2)"
    and v_raises: "num_truediv float_arithmetic (Fin 4) (Fin 0) = Inl ZeroDivisionError"
    and u_raises: "num_truediv float_arithmetic (Fin 2) (Fin 0) = Inl ZeroDivisionError"
    by (simp_all add: float_arithmetic_def Real_truediv_def)
  have "ParamUV_add float_arithmetic (ParamUV_init (Fin 1) (Fin 2)) (ParamUV_init (Fin 3) (Fin 4))
      = Inr (ParamUV_init (Fin 4) (Fin 6))"
    using ParamUV_operators [where ops = float_arithmetic
        and a = "ParamUV_init (Fin 1) (Fin 2)" and b = "ParamUV_init (Fin 3) (Fin 4)"
        and x = "Fin 4" and y = "Fin 6" and e = ZeroDivisionError
        and p = "ParamUV_init (Fin 1) (Fin 2)" and q = "ParamUV_init (Fin 3) (Fin 4)"]
    by (simp add: ParamUV_init_def)
  moreover have "ParamUV_truediv float_arithmetic (ParamUV_init (Fin 2) (Fin 4))
      (ParamUV_init (Fin 2) (Fin 2)) = Inr (ParamUV_init (Fin 1) (Fin 2))"
    using ParamUV_operators [where ops = float_arithmetic
        and a = "ParamUV_init (Fin 2) (Fin 4)" and b = "ParamUV_init (Fin 2) (Fin 2)"
        and x = "Fin 1" and y = "Fin 2" and e = ZeroDivisionError
        and p = "ParamUV_init (Fin 2) (Fin 4)" and q = "ParamUV_init (Fin 2) (Fin 2)"]
      u_quotient v_quotient
    by (simp add: ParamUV_init_def)
  moreover have "ParamUV_truediv float_arithmetic (ParamUV_init (Fin 2) (Fin 4))
      (ParamUV_init (Fin 2) (Fin 0)) = Inl ZeroDivisionError"
    using ParamUV_operators [where ops = float_arithmetic
        and a = "ParamUV_init (Fin 2) (Fin 4)" and b = "ParamUV_init (Fin 2) (Fin 0)"
        and x = "Fin 1" and y = "Fin 2" and e = ZeroDivisionError
        and p = "ParamUV_init (Fin 2) (Fin 4)" and q = "ParamUV_init (Fin 2) (Fin 0)"]
      u_quotient v_raises
    by (simp add: ParamUV_init_def)
  moreover have "ParamUV_truediv float_arithmetic (ParamUV_init (Fin 2) (Fin 4))
      (ParamUV_init (Fin 0) (Fin 2)) = Inl ZeroDivisionError"
    using ParamUV_operators [where ops = float_arithmetic
        and a = "ParamUV_init (Fin 2) (Fin 4)" and b = "ParamUV_init (Fin 0) (Fin 2)"
        and x = "Fin 1" and y = "Fin 2" and e = ZeroDivisionError
        and p = "ParamUV_init (Fin 2) (Fin 4)" and q = "ParamUV_init (Fin 0) (Fin 2)"]
      u_raises
    by (simp add: ParamUV_init_def)
  ultimately show ?thesis by blast
qed

section \<open>Properties of Interval\<close>

lemma Interval_init_Inr:
  "Interval_init s e = Inr a \<Longrightarrow>
     a = \<lparr>Interval_start = s, Interval_end = e, not_empty = True\<rparr> \<and> \<not> Real_lt e s"
  by (auto simp: Interval_init_def split: if_splits)

lemma Interval_getattr_send: "Interval_getattr second ''send'' = Inl AttributeError"
  by (simp add: Interval_getattr_def Interval_methods_def)

lemma intersect_not_empty:
  "\<not> is_empty first \<Longrightarrow> \<not> is_empty second \<Longrightarrow>
     intersect A first second tolerance = Inl AttributeError"
  by (simp add: intersect_def Interval_getattr_send)

lemma intersect_empty:
  "is_empty first \<or> is_empty second \<Longrightarrow> intersect A first second tolerance = Inr None"
  by (simp add: intersect_def)

text \<open>
  Claim C1 says that \<^verbatim>\<open>intersect\<close> of two non-empty intervals computes
  \<^verbatim>\<open>[max(a.start, b.start), min(a.end, b.end)]\<close> and returns it unless it is negative
  within the tolerance. The code reads \<^verbatim>\<open>second.send\<close> where the end of the second
  interval is meant, and an interval has no attribute of that name: for
  \<^verbatim>\<open>Interval(0, 2)\<close> and \<^verbatim>\<open>Interval(1, 3)\<close>, where the claim gives \<^verbatim>\<open>[1, 2]\<close>, the call
  raises \<^verbatim>\<open>AttributeError\<close>, whatever the tolerance and the comparison of
  \<^verbatim>\<open>Accuracy\<close> are.
\<close>

theorem intersect_overlapping_raises:
  "Interval_init (Fin 0) (Fin 2)
     = Inr \<lparr>Interval_start = Fin 0, Interval_end = Fin 2, not_empty = True\<rparr>
   \<and> Interval_init (Fin 1) (Fin 3)
     = Inr \<lparr>Interval_start = Fin 1, Interval_end = Fin 3, not_empty = True\<rparr>
   \<and> intersect A \<lparr>Interval_start = Fin 0, Interval_end = Fin 2, not_empty = True\<rparr>
        \<lparr>Interval_start = Fin 1, Interval_end = Fin 3, not_empty = True\<rparr> tolerance
     = Inl AttributeError"
  by (simp add: Interval_init_def intersect_not_empty is_empty_def)

lemma class_namespace_contains:
  "class_namespace Interval_class_body ''contains'' = Some contains_t"
  by (simp add: class_namespace_def Interval_class_body_def)

lemma contains_two_arguments: "contains A self [t, accuracy] = Inl TypeError"
  by (subst contains.simps) (simp add: class_namespace_contains)

lemma contains_raises: "contains A self args = Inl TypeError"
  by (subst contains.simps)
    (simp add: class_namespace_contains contains_two_arguments split: list.split)

text \<open>
  What the first definition of \<^verbatim>\<open>contains\<close> computes on finite numbers, were it still
  bound: the interval widened by the absolute value of the accuracy on both sides.
\<close>

lemma contains_t_accuracy_body_finite:
  "s \<le> e \<Longrightarrow>
     contains_t_accuracy_body \<lparr>Interval_start = Fin s, Interval_end = Fin e, not_empty = True\<rparr>
       (Fin t) (Fin tol)
     = (s - \<bar>tol\<bar> \<le> t \<and> t \<le> e + \<bar>tol\<bar>)"
  by (auto simp: contains_t_accuracy_body_def is_empty_def Real_gt_def Real_sub_def Let_def)

text \<open>
  Claim C2 says that \<^verbatim>\<open>contains(t, tolerance)\<close> is true exactly for the values of the
  interval widened by the tolerance, that \<^verbatim>\<open>Interval(0,10).contains(5)\<close> and
  \<^verbatim>\<open>Interval(0,10).contains(10.0000001, 0.001)\<close> are true, and that the one-argument
  form delegates to the two-argument form. In the code the second definition of
  \<^verbatim>\<open>contains\<close> replaces the first, so the name is bound to the one-argument function
  alone: the call with a tolerance raises \<^verbatim>\<open>TypeError\<close>, and the call without one
  raises it too, from the inner call that passes the default accuracy.
\<close>

theorem contains_examples_raise:
  "Interval_init (Fin 0) (Fin 10)
     = Inr \<lparr>Interval_start = Fin 0, Interval_end = Fin 10, not_empty = True\<rparr>
   \<and> contains A \<lparr>Interval_start = Fin 0, Interval_end = Fin 10, not_empty = True\<rparr> [Fin 5]
     = Inl TypeError
   \<and> contains A \<lparr>Interval_start = Fin 0, Interval_end = Fin 10, not_empty = True\<rparr>
        [Fin (100000001 / 10000000), Fin (1 / 1000)]
     = Inl TypeError"
  by (simp add: Interval_init_def contains_raises)

lemma py_max_not_below_py_min:
  "\<not> Real_lt e1 s1 \<Longrightarrow> \<not> Real_lt e2 s2 \<Longrightarrow> \<not> Real_lt (py_max e1 e2) (py_min s1 s2)"
  by (cases e1; cases s1; cases e2; cases s2) (auto simp: py_max_def py_min_def Real_gt_def)

text \<open>
  Claim C6: for two non-empty intervals, each as its constructor made it, \<^verbatim>\<open>unite\<close>
  returns the interval from the smaller start to the larger end, and the constructor
  call inside \<^verbatim>\<open>unite\<close> does not fail. When the first operand is empty the result is
  the second, and when the second is empty the result is the first.
\<close>

theorem unite_bounds:
  "(Interval_init s1 e1 = Inr a \<and> Interval_init s2 e2 = Inr b \<longrightarrow>
      unite a b =
        Inr \<lparr>Interval_start = py_min (Interval_start a) (Interval_start b),
             Interval_end = py_max (Interval_end a) (Interval_end b),
             not_empty = True\<rparr>)
   \<and> (is_empty a \<longrightarrow> unite a b = Inr b)
   \<and> (is_empty b \<and> \<not> is_empty a \<longrightarrow> unite a b = Inr a)"
proof -
  have "unite a b =
      Inr \<lparr>Interval_start = py_min (Interval_start a) (Interval_start b),
           Interval_end = py_max (Interval_end a) (Interval_end b),
           not_empty = True\<rparr>"
    if a: "Interval_init s1 e1 = Inr a" and b: "Interval_init s2 e2 = Inr b"
  proof -
    from Interval_init_Inr [OF a] Interval_init_Inr [OF b]
    have "\<not> Real_lt (py_max e1 e2) (py_min s1 s2)"
      and "\<not> is_empty a" and "\<not> is_empty b"
      and "Interval_start a = s1" and "Interval_end a = e1"
      and "Interval_start b = s2" and "Interval_end b = e2"
      by (simp_all add: py_max_not_below_py_min is_empty_def)
    then show ?thesis
      by (simp add: unite_def Interval_init_def)
  qed
  moreover have "is_empty a \<longrightarrow> unite a b = Inr b"
    by (simp add: unite_def)
  moreover have "is_empty b \<and> \<not> is_empty a \<longrightarrow> unite a b = Inr a"
    by (simp add: unite_def)
  ultimately show ?thesis by blast
qed

text \<open>
  Claim C6 at \<^verbatim>\<open>Interval(0, 2)\<close> and \<^verbatim>\<open>Interval(1, 3)\<close>, whose union is \<^verbatim>\<open>[0, 3]\<close>,
  and at the first of them marked empty, which leaves the second.
\<close>

theorem unite_bounds_witness:
  "Interval_init (Fin 0) (Fin 2)
     = Inr \<lparr>Interval_start = Fin 0, Interval_end = Fin 2, not_empty = True\<rparr>
   \<and> Interval_init (Fin 1) (Fin 3)
     = Inr \<lparr>Interval_start = Fin 1, Interval_end = Fin 3, not_empty = True\<rparr>
   \<and> unite \<lparr>Interval_start = Fin 0, Interval_end = Fin 2, not_empty = True\<rparr>
        \<lparr>Interval_start = Fin 1, Interval_end = Fin 3, not_empty = True\<rparr>
     = Inr \<lparr>Interval_start = Fin 0, Interval_end = Fin 3, not_empty = True\<rparr>
   \<and> is_empty \<lparr>Interval_start = Fin 0, Interval_end = Fin 2, not_empty = False\<rparr>
   \<and> unite \<lparr>Interval_start = Fin 0, Interval_end = Fin 2, not_empty = False\<rparr>
        \<lparr>Interval_start = Fin 1, Interval_end = Fin 3, not_empty = True\<rparr>
     = Inr \<lparr>Interval_start = Fin 1, Interval_end = Fin 3, not_empty = True\<rparr>"
  using
    unite_bounds [of "Fin 0" "Fin 2"
      "\<lparr>Interval_start = Fin 0, Interval_end = Fin 2, not_empty = True\<rparr>" "Fin 1" "Fin 3"
      "\<lparr>Interval_start = Fin 1, Interval_end = Fin 3, not_empty = True\<rparr>"]
    unite_bounds [of "Fin 0" "Fin 2"
      "\<lparr>Interval_start = Fin 0, Interval_end = Fin 2, not_empty = False\<rparr>" "Fin 1" "Fin 3"
      "\<lparr>Interval_start = Fin 1, Interval_end = Fin 3, not_empty = True\<rparr>"]
  by (simp add: Interval_init_def is_empty_def py_min_def py_max_def Real_gt_def)

text \<open>
  Claim C7 says that \<^verbatim>\<open>inflate\<close> on a non-empty interval always returns the interval
  \<^verbatim>\<open>(start - delta, end + delta)\<close>. The new interval is built by the constructor, which
  refuses an end below the start: \<^verbatim>\<open>Interval(0, 1).inflate(-1)\<close> raises
  \<^verbatim>\<open>ValueError\<close>.
\<close>

theorem inflate_negative_delta_counterexample:
  "Interval_init (Fin 0) (Fin 1)
     = Inr \<lparr>Interval_start = Fin 0, Interval_end = Fin 1, not_empty = True\<rparr>
   \<and> \<not> is_empty \<lparr>Interval_start = Fin 0, Interval_end = Fin 1, not_empty = True\<rparr>
   \<and> inflate \<lparr>Interval_start = Fin 0, Interval_end = Fin 1, not_empty = True\<rparr> (Fin (- 1))
     = Inl ValueError"
  by (simp add: Interval_init_def inflate_def is_empty_def Real_sub_def)

text \<open>
  Claim C7, as amended: on a non-empty interval, \<^verbatim>\<open>inflate(delta)\<close> returns a new
  interval with the bounds \<^verbatim>\<open>(start - delta, end + delta)\<close> when \<^verbatim>\<open>end + delta\<close> is not
  less than \<^verbatim>\<open>start - delta\<close>, and fails with the constructor's validation error when it
  is less; on an empty interval it fails with the invalid-state error, for every delta.
\<close>

theorem inflate_bounds:
  "(\<not> is_empty self
      \<and> \<not> Real_lt (Real_add (Interval_end self) delta) (Real_sub (Interval_start self) delta)
      \<longrightarrow> inflate self delta =
            Inr \<lparr>Interval_start = Real_sub (Interval_start self) delta,
                 Interval_end = Real_add (Interval_end self) delta,
                 not_empty = True\<rparr>)
   \<and> (\<not> is_empty self
      \<and> Real_lt (Real_add (Interval_end self) delta) (Real_sub (Interval_start self) delta)
      \<longrightarrow> inflate self delta = Inl ValueError)
   \<and> (is_empty self
      \<longrightarrow> inflate self delta
            = Inl (Exception ''Invalid Method On Empty Object ExceptionInterval''))"
  by (simp add: inflate_def Interval_init_def)

text \<open>
  The amended claim at \<^verbatim>\<open>Interval(0, 10)\<close>: widened by 1, narrowed by 6 (more than half
  its span), and marked empty.
\<close>

theorem inflate_bounds_witness:
  "inflate \<lparr>Interval_start = Fin 0, Interval_end = Fin 10, not_empty = True\<rparr> (Fin 1)
     = Inr \<lparr>Interval_start = Fin (- 1), Interval_end = Fin 11, not_empty = True\<rparr>
   \<and> inflate \<lparr>Interval_start = Fin 0, Interval_end = Fin 10, not_empty = True\<rparr> (Fin (- 6))
     = Inl ValueError
   \<and> inflate \<lparr>Interval_start = Fin 0, Interval_end = Fin 10, not_empty = False\<rparr> (Fin 1)
     = Inl (Exception ''Invalid Method On Empty Object ExceptionInterval'')"
  using
    inflate_bounds [of "\<lparr>Interval_start = Fin 0, Interval_end = Fin 10, not_empty = True\<rparr>" "Fin 1"]
    inflate_bounds [of "\<lparr>Interval_start = Fin 0, Interval_end = Fin 10, not_empty = True\<rparr>"
      "Fin (- 6)"]
    inflate_bounds [of "\<lparr>Interval_start = Fin 0, Interval_end = Fin 10, not_empty = False\<rparr>"
      "Fin 1"]
  by (simp add: is_empty_def Real_sub_def)

lemma is_open_iff:
  "is_open self \<longleftrightarrow>
     Interval_start self = NInf \<and> (Interval_end self = NInf \<or> Interval_end self = PInf)"
  by (simp add: is_open_def isneginf_def isinf_def)

text \<open>
  Claim C8 says that \<^verbatim>\<open>is_open\<close> is true exactly when the start is minus infinity and
  the end is plus infinity, as the docstring of the method does. The code tests the end
  with \<^verbatim>\<open>isinf\<close>, which holds of both infinities: the interval
  \<^verbatim>\<open>Interval(-inf, -inf)\<close>, which the constructor accepts, is reported open although its
  end is not plus infinity.
\<close>

theorem is_open_both_neginf:
  "Interval_init NInf NInf
     = Inr \<lparr>Interval_start = NInf, Interval_end = NInf, not_empty = True\<rparr>
   \<and> is_open \<lparr>Interval_start = NInf, Interval_end = NInf, not_empty = True\<rparr>
   \<and> Interval_end \<lparr>Interval_start = NInf, Interval_end = NInf, not_empty = True\<rparr> \<noteq> PInf"
  by (simp add: Interval_init_def is_open_iff)

section \<open>Properties of Plane and PlaneEvaluation\<close>

text \<open>
  A plane that the constructor accepts: origin \<open>(1, 2, 3)\<close> with the default directions.
  A reference that is not perpendicular to the axis is refused.
\<close>

lemma Plane_init_example:
  "Plane_init exact_math (Instance (Point3D (Fin 1) (Fin 2) (Fin 3)))
       (Instance UNITVECTOR3D_X) (Instance UNITVECTOR3D_Z)
     = Inr \<lparr>Plane_origin = Point3D (Fin 1) (Fin 2) (Fin 3), Plane_reference = UNITVECTOR3D_X,
          Plane_axis = UNITVECTOR3D_Z\<rparr>"
  by (simp add: Plane_init_def exact_math_def UNITVECTOR3D_X_def UNITVECTOR3D_Z_def)

lemma Plane_init_sequences_example:
  "Plane_init exact_math (Sequence [Fin 1, Fin 2, Fin 3]) (Sequence [Fin 2, Fin 0, Fin 0])
       (Sequence [Fin 0, Fin 0, Fin 3])
     = Inr \<lparr>Plane_origin = Point3D (Fin 1) (Fin 2) (Fin 3), Plane_reference = UNITVECTOR3D_X,
          Plane_axis = UNITVECTOR3D_Z\<rparr>"
  by (simp add: Plane_init_def exact_math_def UNITVECTOR3D_X_def UNITVECTOR3D_Z_def)

lemma Plane_init_not_perpendicular_example:
  "Plane_init exact_math (Sequence [Fin 0, Fin 0, Fin 0]) (Instance UNITVECTOR3D_X)
       (Instance UNITVECTOR3D_X)
     = Inl ValueError"
  by (simp add: Plane_init_def exact_math_def UNITVECTOR3D_X_def)

lemma Real_add_zero: "Real_add x (Fin 0) = x"
  by (cases x) simp_all

text \<open>
  Claim C4: for a plane that its constructor has accepted and every parameter, the
  evaluation of the plane at the parameter has the plane's z direction as its derivative
  with respect to u and the plane's y direction as its derivative with respect to v.
\<close>

theorem PlaneEvaluation_derivatives:
  "Plane_init M orig reference axis = Inr pl \<Longrightarrow>
     u_derivative (PlaneEvaluation_init pl p) = dir_z pl
     \<and> v_derivative (PlaneEvaluation_init pl p) = dir_y pl"
  by (simp add: u_derivative_def v_derivative_def PlaneEvaluation_init_def)

text \<open>
  Claim C4 at the plane through \<open>(1, 2, 3)\<close> with the default directions: the derivative
  with respect to u is \<open>(0, 0, 1)\<close>, the axis and not the reference \<open>(1, 0, 0)\<close>, and the
  derivative with respect to v is \<open>(0, 1, 0)\<close>.
\<close>

theorem PlaneEvaluation_derivatives_witness:
  "Plane_init exact_math (Instance (Point3D (Fin 1) (Fin 2) (Fin 3)))
       (Instance UNITVECTOR3D_X) (Instance UNITVECTOR3D_Z)
     = Inr \<lparr>Plane_origin = Point3D (Fin 1) (Fin 2) (Fin 3), Plane_reference = UNITVECTOR3D_X,
          Plane_axis = UNITVECTOR3D_Z\<rparr>
   \<and> u_derivative (PlaneEvaluation_init \<lparr>Plane_origin = Point3D (Fin 1) (Fin 2) (Fin 3), Plane_reference = UNITVECTOR3D_X,
          Plane_axis = UNITVECTOR3D_Z\<rparr> (ParamUV_init (Fin 2) (Fin 3)))
     = UnitVector3D 0 0 1
   \<and> v_derivative (PlaneEvaluation_init \<lparr>Plane_origin = Point3D (Fin 1) (Fin 2) (Fin 3), Plane_reference = UNITVECTOR3D_X,
          Plane_axis = UNITVECTOR3D_Z\<rparr> (ParamUV_init (Fin 2) (Fin 3)))
     = UnitVector3D 0 1 0"
  using PlaneEvaluation_derivatives [OF Plane_init_example, of "ParamUV_init (Fin 2) (Fin 3)"]
    Plane_init_example
  by (simp add: dir_x_def dir_y_def dir_z_def UNITVECTOR3D_X_def UNITVECTOR3D_Z_def)

text \<open>
  Claim C5: for a plane that its constructor has accepted and all numbers u and v, the
  position of the evaluation at \<open>(u, v)\<close> is the origin plus u times the x direction plus
  v times the y direction. At \<open>(0, 0)\<close> the position is the origin of the plane, and at
  \<open>(1, 0)\<close> it is the origin plus the x direction.
\<close>

theorem evaluate_position:
  "Plane_init M orig reference axis = Inr pl \<Longrightarrow>
     position (evaluate pl (ParamUV_init u v)) =
       Point3D_add (Point3D_add (origin pl) (Vector3D_rmul u (Vector3D_of (dir_x pl))))
                   (Vector3D_rmul v (Vector3D_of (dir_y pl)))
     \<and> position (evaluate pl (ParamUV_init (Fin 0) (Fin 0))) = origin pl
     \<and> position (evaluate pl (ParamUV_init (Fin 1) (Fin 0))) =
         Point3D_add (origin pl) (Vector3D_of (dir_x pl))"
proof -
  obtain x y z where o: "origin pl = Point3D x y z"
    by (cases "origin pl")
  obtain a b c where dx: "dir_x pl = UnitVector3D a b c"
    by (cases "dir_x pl")
  obtain a' b' c' where dy: "dir_y pl = UnitVector3D a' b' c'"
    by (cases "dir_y pl")
  show ?thesis
    by (simp add: position_def evaluate_def PlaneEvaluation_init_def ParamUV_init_def
          o dx dy Real_add_zero)
qed

text \<open>
  Claim C5 at the plane through \<open>(1, 2, 3)\<close> with the default directions: the position at
  \<open>(2, 3)\<close> is \<open>(3, 5, 3)\<close>, at \<open>(0, 0)\<close> it is the origin, and at \<open>(1, 0)\<close> it is
  \<open>(2, 2, 3)\<close>.
\<close>

theorem evaluate_position_witness:
  "Plane_init exact_math (Instance (Point3D (Fin 1) (Fin 2) (Fin 3)))
       (Instance UNITVECTOR3D_X) (Instance UNITVECTOR3D_Z)
     = Inr \<lparr>Plane_origin = Point3D (Fin 1) (Fin 2) (Fin 3), Plane_reference = UNITVECTOR3D_X,
          Plane_axis = UNITVECTOR3D_Z\<rparr>
   \<and> position (evaluate \<lparr>Plane_origin = Point3D (Fin 1) (Fin 2) (Fin 3), Plane_reference = UNITVECTOR3D_X,
          Plane_axis = UNITVECTOR3D_Z\<rparr> (ParamUV_init (Fin 2) (Fin 3)))
     = Point3D (Fin 3) (Fin 5) (Fin 3)
   \<and> position (evaluate \<lparr>Plane_origin = Point3D (Fin 1) (Fin 2) (Fin 3), Plane_reference = UNITVECTOR3D_X,
          Plane_axis = UNITVECTOR3D_Z\<rparr> (ParamUV_init (Fin 0) (Fin 0)))
     = Point3D (Fin 1) (Fin 2) (Fin 3)
   \<and> position (evaluate \<lparr>Plane_origin = Point3D (Fin 1) (Fin 2) (Fin 3), Plane_reference = UNITVECTOR3D_X,
          Plane_axis = UNITVECTOR3D_Z\<rparr> (ParamUV_init (Fin 1) (Fin 0)))
     = Point3D (Fin 2) (Fin 2) (Fin 3)"
  using evaluate_position [OF Plane_init_example, of "Fin 2" "Fin 3"] Plane_init_example
  by (simp add: origin_def dir_x_def dir_y_def dir_z_def UNITVECTOR3D_X_def UNITVECTOR3D_Z_def)

text \<open>
  Claim C9: for a plane that its constructor has accepted, \<^verbatim>\<open>contains_param\<close> fails with
  \<^verbatim>\<open>NotImplementedError\<close> for every parameter and \<^verbatim>\<open>contains_point\<close> fails with it for
  every point; neither returns a bool.
\<close>

theorem Plane_contains_not_implemented:
  "Plane_init M orig reference axis = Inr pl \<Longrightarrow>
     contains_param pl param_uv = Inl NotImplementedError
     \<and> contains_point pl point = Inl NotImplementedError"
  by (simp add: contains_param_def contains_point_def)

text \<open>
  Claim C9 at the plane through \<open>(1, 2, 3)\<close> with the default directions, for the
  parameter \<open>(0, 0)\<close> and for the plane's own origin.
\<close>

theorem Plane_contains_not_implemented_witness:
  "Plane_init exact_math (Instance (Point3D (Fin 1) (Fin 2) (Fin 3)))
       (Instance UNITVECTOR3D_X) (Instance UNITVECTOR3D_Z)
     = Inr \<lparr>Plane_origin = Point3D (Fin 1) (Fin 2) (Fin 3), Plane_reference = UNITVECTOR3D_X,
          Plane_axis = UNITVECTOR3D_Z\<rparr>
   \<and> contains_param \<lparr>Plane_origin = Point3D (Fin 1) (Fin 2) (Fin 3), Plane_reference = UNITVECTOR3D_X,
          Plane_axis = UNITVECTOR3D_Z\<rparr> (ParamUV_init (Fin 0) (Fin 0))
     = Inl NotImplementedError
   \<and> contains_point \<lparr>Plane_origin = Point3D (Fin 1) (Fin 2) (Fin 3), Plane_reference = UNITVECTOR3D_X,
          Plane_axis = UNITVECTOR3D_Z\<rparr> (Point3D (Fin 1) (Fin 2) (Fin 3))
     = Inl NotImplementedError"
  using Plane_contains_not_implemented [OF Plane_init_example,
      of "ParamUV_init (Fin 0) (Fin 0)" "Point3D (Fin 1) (Fin 2) (Fin 3)"]
    Plane_init_example
  by simp

text \<open>
  Claim C10: comparing a plane with a value that is not a plane raises the type check's
  error, it neither returns false nor defers with \<^verbatim>\<open>NotImplemented\<close>; comparing an
  interval with a value that is not an interval returns \<^verbatim>\<open>NotImplemented\<close> and raises
  nothing.
\<close>

theorem eq_foreign_type:
  "(\<not> isinstance_Plane other \<longrightarrow>
      Plane_eq M pl other = Inl BeartypeCallHintParamViolation
      \<and> Plane_eq M pl other \<noteq> Inr False)
   \<and> (\<not> isinstance_Interval other \<longrightarrow> Interval_eq A i other = NotImplemented)"
  by (cases other) (simp_all add: Plane_eq_def Interval_eq_def)

text \<open>
  Claim C10 for the number 5 as the other value, which is neither a plane nor an
  interval.
\<close>

theorem eq_foreign_type_witness:
  "\<not> isinstance_Plane (Obj_Real (Fin 5)) \<and> \<not> isinstance_Interval (Obj_Real (Fin 5))
   \<and> Plane_eq exact_math \<lparr>Plane_origin = Point3D (Fin 1) (Fin 2) (Fin 3), Plane_reference = UNITVECTOR3D_X,
          Plane_axis = UNITVECTOR3D_Z\<rparr> (Obj_Real (Fin 5))
     = Inl BeartypeCallHintParamViolation
   \<and> Interval_eq sample_accuracy
        \<lparr>Interval_start = Fin 0, Interval_end = Fin 1, not_empty = True\<rparr> (Obj_Real (Fin 5))
     = NotImplemented"
  using eq_foreign_type [of "Obj_Real (Fin 5)" exact_math
      "\<lparr>Plane_origin = Point3D (Fin 1) (Fin 2) (Fin 3), Plane_reference = UNITVECTOR3D_X,
          Plane_axis = UNITVECTOR3D_Z\<rparr>" sample_accuracy
      "\<lparr>Interval_start = Fin 0, Interval_end = Fin 1, not_empty = True\<rparr>"]
  by simp

end
